theory Spec2Isabelle
  imports Main
begin

section \<open>Server: responses, sessions and the broadcast fan-out (server/routes.ts)\<close>

text \<open>
  A JSON value as the routes put it into a broadcast payload: a number or a string.
  Route parameters are read with \<^verbatim>\<open>parseInt\<close>; they are taken to be integers here.
\<close>

datatype json = JNum int | JStr string

text \<open>
  The object handed to \<^verbatim>\<open>broadcastToClients\<close>: \<^verbatim>\<open>{ type, data }\<close>, the payload as its
  keys in the order of the object literal.
\<close>

record message =
  msgType :: string
  msgData :: "(string \<times> json) list"

datatype readyState = CONNECTING | OPEN | CLOSING | CLOSED

text \<open>
  One element of the \<^verbatim>\<open>clients\<close> set: a socket, its state, and the messages that
  \<^verbatim>\<open>client.send\<close> has been called with on it, oldest first.
\<close>

record webSocket =
  wsId :: nat
  wsReadyState :: readyState
  wsSent :: "message list"

text \<open>\<^verbatim>\<open>req.session?.user\<close>: the logged-in user, or none.\<close>

record user =
  userId :: int
  username :: string
  role :: string

type_synonym session = "user option"

text \<open>
  What a handler answers: \<^verbatim>\<open>res.status(c).json({ message })\<close> (\<^verbatim>\<open>res.json\<close> alone is
  status 200), or the JSON body of a read.
\<close>

datatype 'a response = Status nat string | Body 'a

text \<open>
  The server: the storage behind \<^verbatim>\<open>storage.*\<close> (of any type here; the routes only pass
  it on) and the set of connected sockets, in insertion order.
\<close>

record 'st server =
  storage :: 'st
  clients :: "webSocket list"

definition wsSend :: "message \<Rightarrow> webSocket \<Rightarrow> webSocket" where
  "wsSend m c = c\<lparr>wsSent := wsSent c @ [m]\<rparr>"

definition broadcastToClients :: "message \<Rightarrow> webSocket list \<Rightarrow> webSocket list" where
  "broadcastToClients m cs =
     map (\<lambda>client. if wsReadyState client = OPEN then wsSend m client else client) cs"

text \<open>The handlers of \<^verbatim>\<open>wss.on('connection')\<close>, \<^verbatim>\<open>ws.on('close')\<close> and \<^verbatim>\<open>ws.on('error')\<close>.\<close>

definition wsConnect :: "webSocket \<Rightarrow> 'st server \<Rightarrow> 'st server" where
  "wsConnect ws srv =
     (if wsId ws \<in> set (map wsId (clients srv)) then srv
      else srv\<lparr>clients := clients srv @ [ws]\<rparr>)"

definition wsClose :: "nat \<Rightarrow> 'st server \<Rightarrow> 'st server" where
  "wsClose i srv = srv\<lparr>clients := filter (\<lambda>c. wsId c \<noteq> i) (clients srv)\<rparr>"

definition broadcast :: "message \<Rightarrow> 'st server \<Rightarrow> 'st server" where
  "broadcast m srv = srv\<lparr>clients := broadcastToClients m (clients srv)\<rparr>"

text \<open>
  \<^verbatim>\<open>requireAuth\<close>: without a session user the request is answered 401 and \<^verbatim>\<open>next()\<close> is
  not called; otherwise the handler runs.
\<close>

definition requireAuth ::
  "session \<Rightarrow> 'st server \<Rightarrow> ('a response \<times> 'st server) \<Rightarrow> 'a response \<times> 'st server" where
  "requireAuth sess srv next =
     (case sess of
        None \<Rightarrow> (Status 401 ''Authentication required'', srv)
      | Some u \<Rightarrow> next)"

subsection \<open>The material and recut routes\<close>

text \<open>
  Each route takes the storage method it awaits as its first argument. A storage method
  either throws (\<open>Inl\<close>, caught by the route's \<^verbatim>\<open>catch\<close>) or returns the new storage
  (\<open>Inr\<close>); a call that throws is taken to leave the storage as it was.
  A count read from the request body is an integer, or \<open>None\<close> when the field is
  absent or null; the body fields \<^verbatim>\<open>sheetIndex\<close> and \<^verbatim>\<open>status\<close> are taken to be present,
  an integer and a string. The guard \<^verbatim>\<open>!x || x < 1\<close> on an integer \<open>n\<close> is
  \<open>n = 0 \<or> n < 1\<close>; on an absent field it is true (\<^verbatim>\<open>undefined\<close> and \<^verbatim>\<open>null\<close> are
  falsy).
\<close>

text \<open>\<^verbatim>\<open>POST /api/materials/:id/add-sheets\<close>\<close>

definition postAddSheets ::
  "('st \<Rightarrow> int \<Rightarrow> int \<Rightarrow> bool \<Rightarrow> 'e + 'st) \<Rightarrow> 'st server \<Rightarrow> session \<Rightarrow> int \<Rightarrow> int option \<Rightarrow> bool
     \<Rightarrow> unit response \<times> 'st server" where
  "postAddSheets addSheetsToMaterial srv sess materialId additionalSheets isRecut =
     requireAuth sess srv
       (case additionalSheets of
          None \<Rightarrow> (Status 400 ''Additional sheets must be a positive number'', srv)
        | Some n \<Rightarrow>
            if n = 0 \<or> n < 1
            then (Status 400 ''Additional sheets must be a positive number'', srv)
            else (case addSheetsToMaterial (storage srv) materialId n isRecut of
                    Inl e \<Rightarrow> (Status 500 ''Failed to add sheets'', srv)
                  | Inr st \<Rightarrow> (Status 200 ''Sheets added successfully'', srv\<lparr>storage := st\<rparr>)))"

text \<open>\<^verbatim>\<open>POST /api/materials/:materialId/sheets/:sheetIndex\<close>\<close>

definition postSheetStatus ::
  "('st \<Rightarrow> int \<Rightarrow> int \<Rightarrow> string \<Rightarrow> 'e + 'st) \<Rightarrow> 'st server \<Rightarrow> session \<Rightarrow> int \<Rightarrow> int \<Rightarrow> string
     \<Rightarrow> unit response \<times> 'st server" where
  "postSheetStatus updateSheetStatus srv sess materialId sheetIndex status =
     requireAuth sess srv
       (case updateSheetStatus (storage srv) materialId sheetIndex status of
          Inl e \<Rightarrow> (Status 500 ''Failed to update sheet status'', srv)
        | Inr st \<Rightarrow>
            (Status 200 ''Sheet status updated'',
             broadcast \<lparr>msgType = ''sheet_status_updated'',
                        msgData = [(''materialId'', JNum materialId),
                                   (''sheetIndex'', JNum sheetIndex),
                                   (''status'', JStr status)]\<rparr>
               (srv\<lparr>storage := st\<rparr>)))"

text \<open>\<^verbatim>\<open>PUT /api/materials/:id/sheet-status\<close>\<close>

definition putSheetStatus ::
  "('st \<Rightarrow> int \<Rightarrow> int \<Rightarrow> string \<Rightarrow> 'e + 'st) \<Rightarrow> 'st server \<Rightarrow> session \<Rightarrow> int \<Rightarrow> int \<Rightarrow> string
     \<Rightarrow> unit response \<times> 'st server" where
  "putSheetStatus updateSheetStatus srv sess ident sheetIndex status =
     requireAuth sess srv
       (case updateSheetStatus (storage srv) ident sheetIndex status of
          Inl e \<Rightarrow> (Status 500 ''Failed to update sheet status'', srv)
        | Inr st \<Rightarrow>
            (Status 200 ''Sheet status updated'',
             broadcast \<lparr>msgType = ''sheet_status_updated'',
                        msgData = [(''id'', JNum ident),
                                   (''sheetIndex'', JNum sheetIndex),
                                   (''status'', JStr status)]\<rparr>
               (srv\<lparr>storage := st\<rparr>)))"

text \<open>\<^verbatim>\<open>DELETE /api/materials/:id/sheet/:sheetIndex\<close>\<close>

definition deleteSheetRoute ::
  "('st \<Rightarrow> int \<Rightarrow> int \<Rightarrow> 'e + 'st) \<Rightarrow> 'st server \<Rightarrow> session \<Rightarrow> int \<Rightarrow> int
     \<Rightarrow> unit response \<times> 'st server" where
  "deleteSheetRoute deleteSheet srv sess materialId sheetIndex =
     requireAuth sess srv
       (case deleteSheet (storage srv) materialId sheetIndex of
          Inl e \<Rightarrow> (Status 500 ''Failed to delete sheet'', srv)
        | Inr st \<Rightarrow>
            (Status 200 ''Sheet deleted successfully'',
             broadcast \<lparr>msgType = ''sheet_deleted'',
                        msgData = [(''materialId'', JNum materialId),
                                   (''sheetIndex'', JNum sheetIndex)]\<rparr>
               (srv\<lparr>storage := st\<rparr>)))"

text \<open>
  \<^verbatim>\<open>POST /api/materials/:id/recuts\<close>. The user id is read from \<^verbatim>\<open>req.user?.id\<close>, a
  property of the request of its own (not the session's user); an absent \<^verbatim>\<open>reason\<close> is
  left out of the payload by \<^verbatim>\<open>JSON.stringify\<close>.
\<close>

definition postRecuts ::
  "('st \<Rightarrow> int \<Rightarrow> int \<Rightarrow> string option \<Rightarrow> int option \<Rightarrow> 'e + 'st) \<Rightarrow> 'st server \<Rightarrow> session
     \<Rightarrow> user option \<Rightarrow> int \<Rightarrow> int option \<Rightarrow> string option \<Rightarrow> unit response \<times> 'st server" where
  "postRecuts addRecutEntry srv sess reqUser materialId quantity reason =
     requireAuth sess srv
       (case quantity of
          None \<Rightarrow> (Status 400 ''Invalid recut quantity'', srv)
        | Some n \<Rightarrow>
            if n = 0 \<or> n < 1
            then (Status 400 ''Invalid recut quantity'', srv)
            else (case addRecutEntry (storage srv) materialId n reason
                         (map_option userId reqUser) of
                    Inl e \<Rightarrow> (Status 500 ''Failed to add recut entry'', srv)
                  | Inr st \<Rightarrow>
                      (Status 200 ''Recut entry added successfully'',
                       broadcast \<lparr>msgType = ''recut_added'',
                                  msgData = [(''materialId'', JNum materialId),
                                             (''quantity'', JNum n)]
                                            @ (case reason of None \<Rightarrow> []
                                               | Some r \<Rightarrow> [(''reason'', JStr r)])\<rparr>
                         (srv\<lparr>storage := st\<rparr>))))"

text \<open>\<^verbatim>\<open>GET /api/materials/:id/recuts\<close>: registered without \<^verbatim>\<open>requireAuth\<close>.\<close>

definition getRecuts ::
  "('st \<Rightarrow> int \<Rightarrow> 'e + 'a) \<Rightarrow> 'st server \<Rightarrow> session \<Rightarrow> int \<Rightarrow> 'a response \<times> 'st server" where
  "getRecuts getRecutEntries srv sess materialId =
     (case getRecutEntries (storage srv) materialId of
        Inl e \<Rightarrow> (Status 500 ''Failed to fetch recut entries'', srv)
      | Inr recutEntries \<Rightarrow> (Body recutEntries, srv))"

text \<open>\<^verbatim>\<open>POST /api/jobs/:id/materials\<close>\<close>

definition postJobMaterials ::
  "('st \<Rightarrow> int \<Rightarrow> int \<Rightarrow> int \<Rightarrow> 'e + 'st) \<Rightarrow> 'st server \<Rightarrow> session \<Rightarrow> int \<Rightarrow> int option
     \<Rightarrow> int option \<Rightarrow> unit response \<times> 'st server" where
  "postJobMaterials addMaterialToJob srv sess jobId colorId totalSheets =
     requireAuth sess srv
       (case (colorId, totalSheets) of
          (Some c, Some n) \<Rightarrow>
            if c = 0 \<or> n = 0 \<or> n < 1
            then (Status 400 ''Color ID and valid sheet count required'', srv)
            else (case addMaterialToJob (storage srv) jobId c n of
                    Inl e \<Rightarrow> (Status 500 ''Failed to add material to job'', srv)
                  | Inr st \<Rightarrow>
                      (Status 200 ''Material added to job successfully'',
                       broadcast \<lparr>msgType = ''job_updated'',
                                  msgData = [(''jobId'', JNum jobId)]\<rparr>
                         (srv\<lparr>storage := st\<rparr>)))
        | _ \<Rightarrow> (Status 400 ''Color ID and valid sheet count required'', srv))"

text \<open>\<^verbatim>\<open>PUT /api/recuts/:id/sheet-status\<close>\<close>

definition putRecutSheetStatus ::
  "('st \<Rightarrow> int \<Rightarrow> int \<Rightarrow> string \<Rightarrow> 'e + 'st) \<Rightarrow> 'st server \<Rightarrow> session \<Rightarrow> int \<Rightarrow> int \<Rightarrow> string
     \<Rightarrow> unit response \<times> 'st server" where
  "putRecutSheetStatus updateRecutSheetStatus srv sess recutId sheetIndex status =
     requireAuth sess srv
       (case updateRecutSheetStatus (storage srv) recutId sheetIndex status of
          Inl e \<Rightarrow> (Status 500 ''Failed to update recut sheet status'', srv)
        | Inr st \<Rightarrow>
            (Status 200 ''Recut sheet status updated'',
             broadcast \<lparr>msgType = ''recut_sheet_status_updated'',
                        msgData = [(''recutId'', JNum recutId),
                                   (''sheetIndex'', JNum sheetIndex),
                                   (''status'', JStr status)]\<rparr>
               (srv\<lparr>storage := st\<rparr>)))"

section \<open>The sheet status store (server/storage.ts)\<close>

text \<open>
  Rows of the tables \<^verbatim>\<open>job_materials\<close> and \<^verbatim>\<open>recut_entries\<close> of shared/schema.ts, with
  the columns the sheet operations read and write. A \<^verbatim>\<open>sheet_statuses\<close> column that is
  null reads like the empty array in every use below, and is the empty list here.
\<close>

record material =
  matId :: int
  colorId :: int
  totalSheets :: int
  completedSheets :: int
  sheetStatuses :: "string list"

record recutEntry =
  recutId :: int
  recutMaterialId :: int
  quantity :: int
  reason :: "string option"
  recutSheetStatuses :: "string list"
  recutCompletedSheets :: int
  recutUserId :: "int option"

text \<open>
  The two tables, each keyed by its serial primary key, and the next value of each serial.
\<close>

record store =
  materials :: "int \<rightharpoonup> material"
  recuts :: "int \<rightharpoonup> recutEntry"
  nextMaterialId :: int
  nextRecutId :: int

datatype error = NotFound | OutOfRange | InvalidArgument | StorageFailure

definition emptyStore :: store where
  "emptyStore = \<lparr>materials = Map.empty, recuts = Map.empty, nextMaterialId = 1, nextRecutId = 1\<rparr>"

definition countCut :: "string list \<Rightarrow> nat" where
  "countCut ss = length (filter (\<lambda>s. s = ''cut'') ss)"

definition validStatus :: "string \<Rightarrow> bool" where
  "validStatus s = (s = ''pending'' \<or> s = ''cut'' \<or> s = ''skip'')"

text \<open>
  Modelled from the spec: \<^verbatim>\<open>storage.updateSheetStatus\<close> (server/storage.ts is not among
  the sources). Section 4.1, \<^verbatim>\<open>setSheetStatus(materialId, sheetIndex, status)\<close>: fails with
  NotFound if the material is absent, with OutOfRange unless
  \<^verbatim>\<open>0 <= sheetIndex < totalSheets\<close>, with InvalidArgument if the status is not one of the
  three values; otherwise sets \<^verbatim>\<open>sheetStatuses[sheetIndex] = status\<close> and recomputes
  \<^verbatim>\<open>completedSheets = count(sheetStatuses == cut)\<close>. The checks are made in the order in
  which the spec lists the failures.
\<close>

definition updateSheetStatus :: "store \<Rightarrow> int \<Rightarrow> int \<Rightarrow> string \<Rightarrow> error + store" where
  "updateSheetStatus st materialId sheetIndex status =
     (case materials st materialId of
        None \<Rightarrow> Inl NotFound
      | Some m \<Rightarrow>
          if sheetIndex < 0 \<or> totalSheets m \<le> sheetIndex then Inl OutOfRange
          else if validStatus status
          then Inr (st\<lparr>materials := (materials st)(materialId \<mapsto>
                 m\<lparr>sheetStatuses := (sheetStatuses m)[nat sheetIndex := status],
                   completedSheets :=
                     int (countCut ((sheetStatuses m)[nat sheetIndex := status]))\<rparr>)\<rparr>)
          else Inl InvalidArgument)"

text \<open>
  Modelled from the spec: \<^verbatim>\<open>storage.updateRecutSheetStatus\<close> (server/storage.ts is not
  among the sources). Section 4.1, \<^verbatim>\<open>setRecutSheetStatus(recutId, sheetIndex, status)\<close>: the
  same contract, on the recut entry's own sequence and its own \<^verbatim>\<open>quantity\<close> bound.
\<close>

definition updateRecutSheetStatus :: "store \<Rightarrow> int \<Rightarrow> int \<Rightarrow> string \<Rightarrow> error + store" where
  "updateRecutSheetStatus st rid sheetIndex status =
     (case recuts st rid of
        None \<Rightarrow> Inl NotFound
      | Some r \<Rightarrow>
          if sheetIndex < 0 \<or> quantity r \<le> sheetIndex then Inl OutOfRange
          else if validStatus status
          then Inr (st\<lparr>recuts := (recuts st)(rid \<mapsto>
                 r\<lparr>recutSheetStatuses := (recutSheetStatuses r)[nat sheetIndex := status],
                   recutCompletedSheets :=
                     int (countCut ((recutSheetStatuses r)[nat sheetIndex := status]))\<rparr>)\<rparr>)
          else Inl InvalidArgument)"

text \<open>
  Modelled from the spec: \<^verbatim>\<open>storage.addRecutEntry\<close> (server/storage.ts is not among the
  sources). Section 4.1, \<^verbatim>\<open>addRecutEntry(materialId, quantity, reason, userId)\<close>: creates a
  new recut entry with an all-pending sequence of length \<^verbatim>\<open>quantity\<close>; section 7: NotFound
  for an absent material, InvalidArgument for a non-positive quantity. The completed count
  of the new row is the column default 0 of shared/schema.ts.
\<close>

definition addRecutEntry ::
  "store \<Rightarrow> int \<Rightarrow> int \<Rightarrow> string option \<Rightarrow> int option \<Rightarrow> error + store" where
  "addRecutEntry st materialId n why uid =
     (case materials st materialId of
        None \<Rightarrow> Inl NotFound
      | Some m \<Rightarrow>
          if n < 1 then Inl InvalidArgument
          else Inr (st\<lparr>recuts := (recuts st)(nextRecutId st \<mapsto>
                         \<lparr>recutId = nextRecutId st, recutMaterialId = materialId,
                          quantity = n, reason = why,
                          recutSheetStatuses = replicate (nat n) ''pending'',
                          recutCompletedSheets = 0, recutUserId = uid\<rparr>),
                       nextRecutId := nextRecutId st + 1\<rparr>))"

text \<open>
  Modelled from the spec: \<^verbatim>\<open>storage.addSheetsToMaterial\<close> (server/storage.ts is not among
  the sources). Section 4.1, \<^verbatim>\<open>addSheets(materialId, count, isRecut)\<close>: appends \<^verbatim>\<open>count\<close>
  new "pending" entries to the material if \<^verbatim>\<open>isRecut\<close> is false (sections 3 and 8: the
  sequence and \<^verbatim>\<open>totalSheets\<close> grow together, the existing indices unchanged), or creates a
  new recut entry of \<^verbatim>\<open>quantity = count\<close> if it is true; section 7: NotFound for an absent
  material, InvalidArgument for a non-positive count. Section 3 makes \<^verbatim>\<open>completedSheets\<close>
  the derived count of "cut" sheets, section 4.1 has the store recompute the derived
  completed-count with the mutation it applies, and section 8 has the count equal
  \<^verbatim>\<open>count(sheetStatuses == cut)\<close> after every mutation: the row is written with the count of
  its new sequence.
\<close>

definition addSheetsToMaterial :: "store \<Rightarrow> int \<Rightarrow> int \<Rightarrow> bool \<Rightarrow> error + store" where
  "addSheetsToMaterial st materialId n isRecut =
     (case materials st materialId of
        None \<Rightarrow> Inl NotFound
      | Some m \<Rightarrow>
          if n < 1 then Inl InvalidArgument
          else if isRecut then addRecutEntry st materialId n None None
          else Inr (st\<lparr>materials := (materials st)(materialId \<mapsto>
                 m\<lparr>totalSheets := totalSheets m + n,
                   sheetStatuses := sheetStatuses m @ replicate (nat n) ''pending'',
                   completedSheets :=
                     int (countCut (sheetStatuses m @ replicate (nat n) ''pending''))\<rparr>)\<rparr>))"

text \<open>
  Modelled from the spec: \<^verbatim>\<open>storage.deleteSheet\<close> (server/storage.ts is not among the
  sources). Section 4.1, \<^verbatim>\<open>deleteSheet(materialId, sheetIndex)\<close>: removes the index from the
  sequence, shifting the subsequent entries left by one, and decrements \<^verbatim>\<open>totalSheets\<close>;
  section 7: NotFound for an absent material, OutOfRange for an index outside the current
  bounds. Section 3 makes \<^verbatim>\<open>completedSheets\<close> the derived count of "cut" sheets, section
  4.1 has the store recompute the derived completed-count with the mutation it applies,
  and section 8 has the count equal \<^verbatim>\<open>count(sheetStatuses == cut)\<close> after every mutation:
  the row is written with the count of its new sequence.
\<close>

definition deleteSheet :: "store \<Rightarrow> int \<Rightarrow> int \<Rightarrow> error + store" where
  "deleteSheet st materialId sheetIndex =
     (case materials st materialId of
        None \<Rightarrow> Inl NotFound
      | Some m \<Rightarrow>
          if sheetIndex < 0 \<or> totalSheets m \<le> sheetIndex then Inl OutOfRange
          else Inr (st\<lparr>materials := (materials st)(materialId \<mapsto>
                 m\<lparr>totalSheets := totalSheets m - 1,
                   sheetStatuses := take (nat sheetIndex) (sheetStatuses m)
                                    @ drop (Suc (nat sheetIndex)) (sheetStatuses m),
                   completedSheets :=
                     int (countCut (take (nat sheetIndex) (sheetStatuses m)
                                    @ drop (Suc (nat sheetIndex)) (sheetStatuses m)))\<rparr>)\<rparr>))"

text \<open>
  Modelled from the spec: \<^verbatim>\<open>storage.addMaterialToJob\<close> (server/storage.ts is not among the
  sources). Section 3: a material's status sequence is created with all-pending entries,
  of length \<^verbatim>\<open>totalSheets\<close>, when the material is created. The completed count of the new
  row is the column default 0 of shared/schema.ts. Jobs and cutlists are outside the model.
\<close>

definition addMaterialToJob :: "store \<Rightarrow> int \<Rightarrow> int \<Rightarrow> int \<Rightarrow> error + store" where
  "addMaterialToJob st jobId color n =
     Inr (st\<lparr>materials := (materials st)(nextMaterialId st \<mapsto>
                \<lparr>matId = nextMaterialId st, colorId = color, totalSheets = n,
                 completedSheets = 0, sheetStatuses = replicate (nat n) ''pending''\<rparr>),
              nextMaterialId := nextMaterialId st + 1\<rparr>)"

text \<open>
  Modelled from the spec: \<^verbatim>\<open>storage.getRecutEntries\<close> (server/storage.ts is not among the
  sources): the recut entries that belong to the material (section 3), in the order of
  their ids.
\<close>

definition getRecutEntries :: "store \<Rightarrow> int \<Rightarrow> error + recutEntry list" where
  "getRecutEntries st materialId =
     Inr (filter (\<lambda>r. recutMaterialId r = materialId)
            (List.map_filter (recuts st) [1..nextRecutId st - 1]))"

subsection \<open>Requests served one after another\<close>

datatype request =
    AddMaterial session int "int option" "int option"
  | AddSheets session int "int option" bool
  | SetSheetStatusPost session int int string
  | SetSheetStatusPut session int int string
  | DeleteSheet session int int
  | AddRecut session "user option" int "int option" "string option"
  | SetRecutSheetStatus session int int string

fun handle :: "request \<Rightarrow> store server \<Rightarrow> unit response \<times> store server" where
  "handle (AddMaterial sess jobId c n) srv = postJobMaterials addMaterialToJob srv sess jobId c n"
| "handle (AddSheets sess i n isRecut) srv = postAddSheets addSheetsToMaterial srv sess i n isRecut"
| "handle (SetSheetStatusPost sess i k s) srv = postSheetStatus updateSheetStatus srv sess i k s"
| "handle (SetSheetStatusPut sess i k s) srv = putSheetStatus updateSheetStatus srv sess i k s"
| "handle (DeleteSheet sess i k) srv = deleteSheetRoute deleteSheet srv sess i k"
| "handle (AddRecut sess u i n why) srv = postRecuts addRecutEntry srv sess u i n why"
| "handle (SetRecutSheetStatus sess i k s) srv =
     putRecutSheetStatus updateRecutSheetStatus srv sess i k s"

fun serve :: "request list \<Rightarrow> store server \<Rightarrow> store server" where
  "serve [] srv = srv"
| "serve (r # rs) srv = serve rs (snd (handle r srv))"

section \<open>Client: the job popup (JobPopup)\<close>

text \<open>
  The chain of \<^verbatim>\<open>handleSheetClick\<close> and \<^verbatim>\<open>handleRecutSheetClick\<close> (the same in both):
  pending, cut, skip, pending; any other string goes to pending.
\<close>

definition cycleStatus :: "string \<Rightarrow> string" where
  "cycleStatus actualStatus =
     (if actualStatus = ''pending'' then ''cut''
      else if actualStatus = ''cut'' then ''skip''
      else ''pending'')"

text \<open>The header count: \<^verbatim>\<open>material.sheetStatuses?.filter(s => s === 'cut').length || 0\<close>.\<close>

definition shownCompleted :: "material \<Rightarrow> nat" where
  "shownCompleted material =
     (let n = length (filter (\<lambda>s. s = ''cut'') (sheetStatuses material))
      in if n = 0 then 0 else n)"

text \<open>The variables of a mutation and the context that \<^verbatim>\<open>onMutate\<close> returns.\<close>

record variables =
  varMaterialId :: int
  varSheetIndex :: nat
  varStatus :: string

record mutationContext =
  ctxMaterialId :: int
  ctxSheetIndex :: nat
  previousStatus :: "string option"

record toast =
  title :: string
  description :: string
  variant :: string

text \<open>
  \<^verbatim>\<open>Record<string, Record<number, string>>\<close>: from a material id to the row of its
  optimistic entries.
\<close>

type_synonym optimistic = "int \<Rightarrow> (nat \<Rightarrow> string option) option"

text \<open>
  The state of the popup. Its current values: the materials of the job as last fetched,
  the optimistic map, the mutations awaiting their response (oldest first), the calls made
  to \<^verbatim>\<open>PUT /api/materials/:id/sheet-status\<close>, the number of invalidations of the job
  query and the toasts shown. And what the last render saw of them: the
  \<^verbatim>\<open>optimisticSheetStatuses\<close> that the handlers of that render close over, and the
  \<^verbatim>\<open>isPending\<close> that its buttons were given as \<^verbatim>\<open>disabled\<close>. A handler or a button keeps
  the values of its render until the component renders again.
\<close>

record popup =
  job :: "material list"
  optimisticSheetStatuses :: optimistic
  inFlight :: "(variables \<times> mutationContext) list"
  apiCalls :: "variables list"
  invalidations :: nat
  toasts :: "toast list"
  renderedStatuses :: optimistic
  renderedPending :: bool

text \<open>\<^verbatim>\<open>optimisticSheetStatuses[materialId]?.[sheetIndex]\<close>\<close>

definition optimisticAt :: "optimistic \<Rightarrow> int \<Rightarrow> nat \<Rightarrow> string option" where
  "optimisticAt opt materialId sheetIndex =
     (case opt materialId of None \<Rightarrow> None | Some row \<Rightarrow> row sheetIndex)"

text \<open>
  \<^verbatim>\<open>{ ...prev, [materialId]: { ...prev[materialId], [sheetIndex]: status } }\<close>
\<close>

definition setOptimistic :: "int \<Rightarrow> nat \<Rightarrow> string \<Rightarrow> optimistic \<Rightarrow> optimistic" where
  "setOptimistic materialId sheetIndex status prev =
     prev(materialId \<mapsto>
       (case prev materialId of None \<Rightarrow> Map.empty | Some row \<Rightarrow> row)(sheetIndex \<mapsto> status))"

text \<open>\<^verbatim>\<open>x || 'pending'\<close> on a string that may be undefined: the empty string is falsy too.\<close>

definition orPending :: "string option \<Rightarrow> string" where
  "orPending x = (case x of None \<Rightarrow> ''pending'' | Some s \<Rightarrow> if s = [] then ''pending'' else s)"

text \<open>\<^verbatim>\<open>material.sheetStatuses?.[index] || 'pending'\<close>: a read past the end is undefined.\<close>

definition serverStatus :: "material \<Rightarrow> nat \<Rightarrow> string" where
  "serverStatus material index =
     orPending (if index < length (sheetStatuses material)
                then Some (sheetStatuses material ! index) else None)"

text \<open>
  The status a render of the state gives a cell: the optimistic entry if there is one.
\<close>

definition displayedStatus :: "popup \<Rightarrow> material \<Rightarrow> nat \<Rightarrow> string" where
  "displayedStatus st material index =
     (case optimisticAt (optimisticSheetStatuses st) (matId material) index of
        Some optimisticStatus \<Rightarrow> optimisticStatus
      | None \<Rightarrow> serverStatus material index)"

text \<open>
  The \<^verbatim>\<open>status\<close> that the last render computed for a cell, which the cell's
  \<^verbatim>\<open>onClick\<close> passes on: the same expression, on the optimistic map of that render.
\<close>

definition renderedStatus :: "popup \<Rightarrow> material \<Rightarrow> nat \<Rightarrow> string" where
  "renderedStatus st material index =
     (case optimisticAt (renderedStatuses st) (matId material) index of
        Some optimisticStatus \<Rightarrow> optimisticStatus
      | None \<Rightarrow> serverStatus material index)"

text \<open>
  \<^verbatim>\<open>updateSheetMutation.isPending\<close>: the mutation started last has not had its response
  yet. Responses are taken in the order of their requests (\<open>respondSuccess\<close> and
  \<open>respondError\<close> below), so the mutation started last is the last one to be settled.
\<close>

definition isPending :: "popup \<Rightarrow> bool" where
  "isPending st = (inFlight st \<noteq> [])"

text \<open>The component renders again: handlers and buttons see the current values.\<close>

definition render :: "popup \<Rightarrow> popup" where
  "render st = st\<lparr>renderedStatuses := optimisticSheetStatuses st,
                  renderedPending := isPending st\<rparr>"

text \<open>
  \<^verbatim>\<open>onMutate\<close>: writes the optimistic entry with the functional update (on the current
  map) and returns the context, whose \<^verbatim>\<open>previousStatus\<close> is read from the
  \<^verbatim>\<open>optimisticSheetStatuses\<close> of the render.
\<close>

definition onMutate :: "popup \<Rightarrow> variables \<Rightarrow> popup \<times> mutationContext" where
  "onMutate st v =
     (st\<lparr>optimisticSheetStatuses :=
           setOptimistic (varMaterialId v) (varSheetIndex v) (varStatus v)
             (optimisticSheetStatuses st)\<rparr>,
      \<lparr>ctxMaterialId = varMaterialId v, ctxSheetIndex = varSheetIndex v,
       previousStatus =
         optimisticAt (renderedStatuses st) (varMaterialId v) (varSheetIndex v)\<rparr>)"

text \<open>\<^verbatim>\<open>updateSheetMutation.mutate\<close>: \<^verbatim>\<open>onMutate\<close>, then the request of \<^verbatim>\<open>mutationFn\<close>.\<close>

definition mutate :: "popup \<Rightarrow> variables \<Rightarrow> popup" where
  "mutate st v =
     (case onMutate st v of
        (st1, ctx) \<Rightarrow> st1\<lparr>apiCalls := apiCalls st1 @ [v], inFlight := inFlight st1 @ [(v, ctx)]\<rparr>)"

text \<open>
  \<^verbatim>\<open>handleSheetClick\<close>: the optimistic status it looks up is the one of the
  \<^verbatim>\<open>optimisticSheetStatuses\<close> of the render.
\<close>

definition handleSheetClick :: "popup \<Rightarrow> int \<Rightarrow> nat \<Rightarrow> string \<Rightarrow> popup" where
  "handleSheetClick st materialId sheetIndex currentStatus =
     (let actualStatus =
            (case optimisticAt (renderedStatuses st) materialId sheetIndex of
               Some optimisticStatus \<Rightarrow> optimisticStatus
             | None \<Rightarrow> currentStatus);
          newStatus = cycleStatus actualStatus
      in mutate st \<lparr>varMaterialId = materialId, varSheetIndex = sheetIndex,
                     varStatus = newStatus\<rparr>)"

text \<open>
  A click on the button of a cell: the button was rendered with \<^verbatim>\<open>disabled={isPending}\<close>,
  and a disabled button does not call \<^verbatim>\<open>onClick\<close>; otherwise \<^verbatim>\<open>onClick\<close> calls
  \<^verbatim>\<open>handleSheetClick(material.id, index, status)\<close> with the status the render computed
  for the cell.
\<close>

definition buttonClick :: "popup \<Rightarrow> material \<Rightarrow> nat \<Rightarrow> popup" where
  "buttonClick st material index =
     (if renderedPending st then st
      else handleSheetClick st (matId material) index (renderedStatus st material index))"

text \<open>\<^verbatim>\<open>onSuccess\<close>: invalidates the job query, and nothing else.\<close>

definition onSuccess :: "popup \<Rightarrow> variables \<Rightarrow> popup" where
  "onSuccess st v = st\<lparr>invalidations := Suc (invalidations st)\<rparr>"

text \<open>
  \<^verbatim>\<open>onError\<close>: writes \<^verbatim>\<open>context.previousStatus || 'pending'\<close> into the optimistic map and
  shows the toast. The context is the object that \<^verbatim>\<open>onMutate\<close> returned, so
  \<^verbatim>\<open>if (context)\<close> holds.
\<close>

definition onError :: "popup \<Rightarrow> string \<Rightarrow> variables \<Rightarrow> mutationContext \<Rightarrow> popup" where
  "onError st errorMessage v ctx =
     st\<lparr>optimisticSheetStatuses :=
          setOptimistic (ctxMaterialId ctx) (ctxSheetIndex ctx) (orPending (previousStatus ctx))
            (optimisticSheetStatuses st),
        toasts := toasts st @
          [\<lparr>title = ''Error'',
            description = (if errorMessage = [] then ''Failed to update sheet status''
                           else errorMessage),
            variant = ''destructive''\<rparr>]\<rparr>"

text \<open>The response to the oldest mutation in flight arrives: success, or failure.\<close>

definition respondSuccess :: "popup \<Rightarrow> popup" where
  "respondSuccess st =
     (case inFlight st of [] \<Rightarrow> st | (v, ctx) # rest \<Rightarrow> onSuccess (st\<lparr>inFlight := rest\<rparr>) v)"

definition respondError :: "string \<Rightarrow> popup \<Rightarrow> popup" where
  "respondError errorMessage st =
     (case inFlight st of [] \<Rightarrow> st
      | (v, ctx) # rest \<Rightarrow> onError (st\<lparr>inFlight := rest\<rparr>) errorMessage v ctx)"

text \<open>The job query has been fetched again: the materials are the server's.\<close>

definition refetched :: "material list \<Rightarrow> popup \<Rightarrow> popup" where
  "refetched materials' st = st\<lparr>job := materials'\<rparr>"

section \<open>Example states\<close>

definition operator :: user where
  "operator = \<lparr>userId = 1, username = ''op'', role = ''user''\<rparr>"

definition sixPending :: material where
  "sixPending = \<lparr>matId = 5, colorId = 3, totalSheets = 6, completedSheets = 0,
                 sheetStatuses = replicate 6 ''pending''\<rparr>"

definition shopStore :: store where
  "shopStore = \<lparr>materials = [5 \<mapsto> sixPending], recuts = Map.empty,
                nextMaterialId = 6, nextRecutId = 1\<rparr>"

text \<open>Three sockets in the set; the second one has closed and is not yet removed.\<close>

definition shopServer :: "store server" where
  "shopServer =
     \<lparr>storage = shopStore,
      clients = [\<lparr>wsId = 1, wsReadyState = OPEN, wsSent = []\<rparr>,
                 \<lparr>wsId = 2, wsReadyState = CLOSED, wsSent = []\<rparr>,
                 \<lparr>wsId = 3, wsReadyState = OPEN, wsSent = []\<rparr>]\<rparr>"

definition freshServer :: "store server" where
  "freshServer = \<lparr>storage = emptyStore, clients = []\<rparr>"

definition cell :: "string \<Rightarrow> material" where
  "cell s = \<lparr>matId = 5, colorId = 3, totalSheets = 1,
             completedSheets = (if s = ''cut'' then 1 else 0), sheetStatuses = [s]\<rparr>"

text \<open>The popup as first rendered on a fetched job: nothing optimistic, nothing in flight.\<close>

definition freshPopup :: "material list \<Rightarrow> popup" where
  "freshPopup ms = \<lparr>job = ms, optimisticSheetStatuses = Map.empty, inFlight = [],
                    apiCalls = [], invalidations = 0, toasts = [],
                    renderedStatuses = Map.empty, renderedPending = False\<rparr>"

definition twoCutStore :: store where
  "twoCutStore =
     \<lparr>materials = [5 \<mapsto> sixPending\<lparr>completedSheets := 1,
                        sheetStatuses := [''pending'', ''pending'', ''cut'', ''pending'',
                                          ''pending'', ''pending'']\<rparr>],
      recuts = [1 \<mapsto> \<lparr>recutId = 1, recutMaterialId = 5, quantity = 2, reason = None,
                        recutSheetStatuses = [''pending'', ''pending''],
                        recutCompletedSheets = 0, recutUserId = None\<rparr>],
      nextMaterialId = 6, nextRecutId = 2\<rparr>"

definition threeRequests :: "request list" where
  "threeRequests =
     [AddMaterial (Some operator) 1 (Some 3) (Some 4),
      AddSheets (Some operator) 5 (Some 3) False,
      DeleteSheet (Some operator) 5 2]"

definition eightPending :: material where
  "eightPending = \<lparr>matId = 5, colorId = 3, totalSheets = 8, completedSheets = 0,
                   sheetStatuses = replicate 8 ''pending''\<rparr>"

definition cutThenDelete :: "request list" where
  "cutThenDelete =
     [SetSheetStatusPut (Some operator) 5 2 ''cut'', DeleteSheet (Some operator) 5 2]"

definition fivePending :: material where
  "fivePending = \<lparr>matId = 5, colorId = 3, totalSheets = 5, completedSheets = 0,
                  sheetStatuses = replicate 5 ''pending''\<rparr>"

definition cutMessage :: message where
  "cutMessage = \<lparr>msgType = ''sheet_status_updated'',
                 msgData = [(''id'', JNum 5), (''sheetIndex'', JNum 2),
                            (''status'', JStr ''cut'')]\<rparr>"

section \<open>The invariant of the status sequences\<close>

definition lengthAgrees :: "material \<Rightarrow> bool" where
  "lengthAgrees m = (int (length (sheetStatuses m)) = totalSheets m)"

definition storeAgrees :: "store \<Rightarrow> bool" where
  "storeAgrees st = (\<forall>i m. materials st i = Some m \<longrightarrow> lengthAgrees m)"

definition countAgrees :: "material \<Rightarrow> bool" where
  "countAgrees m = (completedSheets m = int (countCut (sheetStatuses m)))"

definition recutCountAgrees :: "recutEntry \<Rightarrow> bool" where
  "recutCountAgrees r = (recutCompletedSheets r = int (countCut (recutSheetStatuses r)))"

definition storeCounts :: "store \<Rightarrow> bool" where
  "storeCounts st =
     ((\<forall>i m. materials st i = Some m \<longrightarrow> countAgrees m)
      \<and> (\<forall>j r. recuts st j = Some r \<longrightarrow> recutCountAgrees r))"

section \<open>Properties of the server\<close>

lemmas route_defs = putSheetStatus_def postSheetStatus_def putRecutSheetStatus_def
  postAddSheets_def postRecuts_def deleteSheetRoute_def getRecuts_def postJobMaterials_def

lemma storage_broadcast: "storage (broadcast msg srv) = storage srv"
  by (simp add: broadcast_def)

lemma length_broadcastToClients: "length (broadcastToClients msg cs) = length cs"
  by (simp add: broadcastToClients_def)

lemma broadcastToClients_open:
  assumes "n < length cs" and "wsReadyState (cs ! n) = OPEN"
  shows "wsSent (broadcastToClients msg cs ! n) = wsSent (cs ! n) @ [msg]"
  using assms by (simp add: broadcastToClients_def wsSend_def)

lemma broadcastToClients_not_open:
  assumes "n < length cs" and "wsReadyState (cs ! n) \<noteq> OPEN"
  shows "broadcastToClients msg cs ! n = cs ! n"
  using assms by (simp add: broadcastToClients_def)

subsection \<open>Length of the status sequence\<close>

lemma storeAgrees_emptyStore: "storeAgrees emptyStore"
  by (simp add: storeAgrees_def emptyStore_def)

lemma agrees_updateSheetStatus:
  "storeAgrees st \<Longrightarrow> updateSheetStatus st i k s = Inr st' \<Longrightarrow> storeAgrees st'"
  by (auto simp: storeAgrees_def lengthAgrees_def updateSheetStatus_def
           split: option.splits if_splits)

lemma agrees_updateRecutSheetStatus:
  "storeAgrees st \<Longrightarrow> updateRecutSheetStatus st i k s = Inr st' \<Longrightarrow> storeAgrees st'"
  by (auto simp: storeAgrees_def updateRecutSheetStatus_def split: option.splits if_splits)

lemma agrees_addRecutEntry:
  "storeAgrees st \<Longrightarrow> addRecutEntry st i n why uid = Inr st' \<Longrightarrow> storeAgrees st'"
  by (auto simp: storeAgrees_def addRecutEntry_def split: option.splits if_splits)

lemma agrees_addSheetsToMaterial:
  "storeAgrees st \<Longrightarrow> addSheetsToMaterial st i n isRecut = Inr st' \<Longrightarrow> storeAgrees st'"
  by (auto simp: storeAgrees_def lengthAgrees_def addSheetsToMaterial_def addRecutEntry_def
           split: option.splits if_splits)

lemma length_remove_index:
  assumes "int (length ss) = n" and "0 \<le> k" and "k < n"
  shows "int (length (take (nat k) ss @ drop (Suc (nat k)) ss)) = n - 1"
  using assms by auto

lemma agrees_deleteSheet:
  assumes "storeAgrees st" and "deleteSheet st i k = Inr st'"
  shows "storeAgrees st'"
proof -
  from assms(2) obtain m where m: "materials st i = Some m"
    and k: "0 \<le> k" "k < totalSheets m"
    and st': "st' = st\<lparr>materials := (materials st)(i \<mapsto>
                 m\<lparr>totalSheets := totalSheets m - 1,
                   sheetStatuses := take (nat k) (sheetStatuses m)
                                    @ drop (Suc (nat k)) (sheetStatuses m),
                   completedSheets :=
                     int (countCut (take (nat k) (sheetStatuses m)
                                    @ drop (Suc (nat k)) (sheetStatuses m)))\<rparr>)\<rparr>"
    by (auto simp: deleteSheet_def split: option.splits if_splits)
  from assms(1) m have "int (length (sheetStatuses m)) = totalSheets m"
    by (simp add: storeAgrees_def lengthAgrees_def)
  then have "int (length (take (nat k) (sheetStatuses m) @ drop (Suc (nat k)) (sheetStatuses m)))
               = totalSheets m - 1"
    using k by (rule length_remove_index)
  with assms(1) show ?thesis
    unfolding st' storeAgrees_def lengthAgrees_def by simp
qed

lemma agrees_addMaterialToJob:
  "storeAgrees st \<Longrightarrow> \<not> n < 1 \<Longrightarrow> addMaterialToJob st j c n = Inr st' \<Longrightarrow> storeAgrees st'"
  by (auto simp: storeAgrees_def lengthAgrees_def addMaterialToJob_def
           split: option.splits if_splits)

lemma agrees_handle:
  assumes "storeAgrees (storage srv)"
  shows "storeAgrees (storage (snd (handle r srv)))"
proof (cases r)
  case (AddMaterial sess j c n)
  then show ?thesis using assms
    by (auto simp: postJobMaterials_def requireAuth_def storage_broadcast
             split: option.splits sum.splits dest: agrees_addMaterialToJob)
next
  case (AddSheets sess i n isRecut)
  then show ?thesis using assms
    by (auto simp: postAddSheets_def requireAuth_def
             split: option.splits sum.splits dest: agrees_addSheetsToMaterial)
next
  case (SetSheetStatusPost sess i k s)
  then show ?thesis using assms
    by (auto simp: postSheetStatus_def requireAuth_def storage_broadcast
             split: option.splits sum.splits dest: agrees_updateSheetStatus)
next
  case (SetSheetStatusPut sess i k s)
  then show ?thesis using assms
    by (auto simp: putSheetStatus_def requireAuth_def storage_broadcast
             split: option.splits sum.splits dest: agrees_updateSheetStatus)
next
  case (DeleteSheet sess i k)
  then show ?thesis using assms
    by (auto simp: deleteSheetRoute_def requireAuth_def storage_broadcast
             split: option.splits sum.splits dest: agrees_deleteSheet)
next
  case (AddRecut sess u i n why)
  then show ?thesis using assms
    by (auto simp: postRecuts_def requireAuth_def storage_broadcast
             split: option.splits sum.splits dest: agrees_addRecutEntry)
next
  case (SetRecutSheetStatus sess i k s)
  then show ?thesis using assms
    by (auto simp: putRecutSheetStatus_def requireAuth_def storage_broadcast
             split: option.splits sum.splits dest: agrees_updateRecutSheetStatus)
qed

lemma agrees_serve: "storeAgrees (storage srv) \<Longrightarrow> storeAgrees (storage (serve rs srv))"
  by (induction rs arbitrary: srv) (auto intro: agrees_handle)

lemma storeAgrees_shopServer: "storeAgrees (storage shopServer)"
  by (simp add: storeAgrees_def lengthAgrees_def shopServer_def shopStore_def sixPending_def)

lemma serve_threeRequests:
  "materials (storage (serve threeRequests shopServer)) 5 = Some eightPending"
  by (simp add: threeRequests_def shopServer_def shopStore_def sixPending_def eightPending_def
        operator_def route_defs requireAuth_def broadcast_def addMaterialToJob_def
        addSheetsToMaterial_def deleteSheet_def countCut_def numeral_eq_Suc)

text \<open>
  C1. Whatever requests the server handles, one after another (creating materials, adding
  sheets, deleting sheets, setting statuses, adding recut entries), starting from a store
  in which every material's \<open>sheetStatuses\<close> is as long as its \<open>totalSheets\<close> (the empty
  store is one), every material of the store reached has a \<open>sheetStatuses\<close> sequence whose
  length is its \<open>totalSheets\<close>. The storage methods are the ones modelled from the spec;
  the guards on the counts are those of the routes.
\<close>

theorem sheetStatuses_length_is_totalSheets:
  assumes "storeAgrees (storage srv)"
      and "materials (storage (serve rs srv)) i = Some m"
  shows "int (length (sheetStatuses m)) = totalSheets m"
proof -
  from assms(1) have "storeAgrees (storage (serve rs srv))"
    by (rule agrees_serve)
  with assms(2) show ?thesis
    by (simp add: storeAgrees_def lengthAgrees_def)
qed

text \<open>
  A material of six sheets, after a second material is created, three sheets are added to
  the first and its sheet 2 is deleted: eight sheets, eight statuses.
\<close>

theorem sheetStatuses_length_is_totalSheets_witness:
  "storeAgrees (storage shopServer)
   \<and> materials (storage (serve threeRequests shopServer)) 5 = Some eightPending
   \<and> int (length (sheetStatuses eightPending)) = totalSheets eightPending
   \<and> totalSheets eightPending = 8"
  using sheetStatuses_length_is_totalSheets [OF storeAgrees_shopServer serve_threeRequests]
    storeAgrees_shopServer serve_threeRequests
  by (simp add: eightPending_def)

subsection \<open>The completed count\<close>

lemma countCut_pending: "countCut (replicate n ''pending'') = 0"
  by (simp add: countCut_def)

lemma shownCompleted_countCut: "shownCompleted m = countCut (sheetStatuses m)"
  by (simp add: shownCompleted_def countCut_def Let_def)

lemma counts_updateSheetStatus:
  "storeCounts st \<Longrightarrow> updateSheetStatus st i k s = Inr st' \<Longrightarrow> storeCounts st'"
  by (auto simp: storeCounts_def countAgrees_def updateSheetStatus_def
           split: option.splits if_splits)

lemma counts_updateRecutSheetStatus:
  "storeCounts st \<Longrightarrow> updateRecutSheetStatus st i k s = Inr st' \<Longrightarrow> storeCounts st'"
  by (auto simp: storeCounts_def recutCountAgrees_def updateRecutSheetStatus_def
           split: option.splits if_splits)

lemma counts_addRecutEntry:
  "storeCounts st \<Longrightarrow> addRecutEntry st i n why uid = Inr st' \<Longrightarrow> storeCounts st'"
  by (auto simp: storeCounts_def recutCountAgrees_def addRecutEntry_def countCut_pending
           split: option.splits if_splits)

lemma counts_addSheetsToMaterial:
  "storeCounts st \<Longrightarrow> addSheetsToMaterial st i n isRecut = Inr st' \<Longrightarrow> storeCounts st'"
  by (auto simp: storeCounts_def countAgrees_def recutCountAgrees_def addSheetsToMaterial_def
                 addRecutEntry_def countCut_pending
           split: option.splits if_splits)

lemma counts_deleteSheet:
  "storeCounts st \<Longrightarrow> deleteSheet st i k = Inr st' \<Longrightarrow> storeCounts st'"
  by (auto simp: storeCounts_def countAgrees_def deleteSheet_def
           split: option.splits if_splits)

lemma counts_addMaterialToJob:
  "storeCounts st \<Longrightarrow> addMaterialToJob st j c n = Inr st' \<Longrightarrow> storeCounts st'"
  by (auto simp: storeCounts_def countAgrees_def addMaterialToJob_def countCut_pending
           split: option.splits if_splits)

lemma counts_handle:
  assumes "storeCounts (storage srv)"
  shows "storeCounts (storage (snd (handle r srv)))"
proof (cases r)
  case (AddMaterial sess j c n)
  then show ?thesis using assms
    by (auto simp: postJobMaterials_def requireAuth_def storage_broadcast
             split: option.splits sum.splits dest: counts_addMaterialToJob)
next
  case (AddSheets sess i n isRecut)
  then show ?thesis using assms
    by (auto simp: postAddSheets_def requireAuth_def
             split: option.splits sum.splits dest: counts_addSheetsToMaterial)
next
  case (SetSheetStatusPost sess i k s)
  then show ?thesis using assms
    by (auto simp: postSheetStatus_def requireAuth_def storage_broadcast
             split: option.splits sum.splits dest: counts_updateSheetStatus)
next
  case (SetSheetStatusPut sess i k s)
  then show ?thesis using assms
    by (auto simp: putSheetStatus_def requireAuth_def storage_broadcast
             split: option.splits sum.splits dest: counts_updateSheetStatus)
next
  case (DeleteSheet sess i k)
  then show ?thesis using assms
    by (auto simp: deleteSheetRoute_def requireAuth_def storage_broadcast
             split: option.splits sum.splits dest: counts_deleteSheet)
next
  case (AddRecut sess u i n why)
  then show ?thesis using assms
    by (auto simp: postRecuts_def requireAuth_def storage_broadcast
             split: option.splits sum.splits dest: counts_addRecutEntry)
next
  case (SetRecutSheetStatus sess i k s)
  then show ?thesis using assms
    by (auto simp: putRecutSheetStatus_def requireAuth_def storage_broadcast
             split: option.splits sum.splits dest: counts_updateRecutSheetStatus)
qed

lemma counts_serve: "storeCounts (storage srv) \<Longrightarrow> storeCounts (storage (serve rs srv))"
  by (induction rs arbitrary: srv) (auto intro: counts_handle)

lemma written_updateSheetStatus:
  "updateSheetStatus st i k s = Inr st' \<Longrightarrow>
     \<exists>m. materials st' i = Some m \<and> countAgrees m \<and> completedSheets m = int (shownCompleted m)"
  by (auto simp: updateSheetStatus_def countAgrees_def shownCompleted_countCut
           split: option.splits if_splits)

lemma written_updateRecutSheetStatus:
  "updateRecutSheetStatus st j k s = Inr st' \<Longrightarrow>
     \<exists>r. recuts st' j = Some r \<and> recutCountAgrees r"
  by (auto simp: updateRecutSheetStatus_def recutCountAgrees_def split: option.splits if_splits)

lemma written_deleteSheet:
  "deleteSheet st i k = Inr st' \<Longrightarrow>
     \<exists>m. materials st' i = Some m \<and> countAgrees m \<and> completedSheets m = int (shownCompleted m)"
  by (auto simp: deleteSheet_def countAgrees_def shownCompleted_countCut
           split: option.splits if_splits)

lemma written_addRecutEntry:
  "addRecutEntry st i n why uid = Inr st' \<Longrightarrow>
     \<exists>r. recuts st' (nextRecutId st) = Some r \<and> recutCountAgrees r"
  by (auto simp: addRecutEntry_def recutCountAgrees_def countCut_pending
           split: option.splits if_splits)

lemma written_addSheetsToMaterial:
  "addSheetsToMaterial st i n False = Inr st' \<Longrightarrow>
     \<exists>m. materials st' i = Some m \<and> countAgrees m \<and> completedSheets m = int (shownCompleted m)"
  by (auto simp: addSheetsToMaterial_def countAgrees_def shownCompleted_countCut
           split: option.splits if_splits)

lemma written_addSheetsToMaterial_recut:
  "addSheetsToMaterial st i n True = Inr st' \<Longrightarrow>
     \<exists>r. recuts st' (nextRecutId st) = Some r \<and> recutCountAgrees r"
  by (auto simp: addSheetsToMaterial_def dest: written_addRecutEntry
           split: option.splits if_splits)

lemma written_addMaterialToJob:
  "addMaterialToJob st jb c n = Inr st' \<Longrightarrow>
     \<exists>m. materials st' (nextMaterialId st) = Some m \<and> countAgrees m
         \<and> completedSheets m = int (shownCompleted m)"
  by (auto simp: addMaterialToJob_def countAgrees_def shownCompleted_countCut countCut_pending)

text \<open>
  C2. After every mutation of a material's or a recut entry's status sequence, the
  completed count stored with the sequence is the number of its entries that are
  \<open>''cut''\<close>: for the material written by \<open>updateSheetStatus\<close>, by \<open>deleteSheet\<close> and by
  \<open>addSheetsToMaterial\<close>, and for the one created by \<open>addMaterialToJob\<close> (the count is
  also the one the popup shows for the material); for the recut entry written by
  \<open>updateRecutSheetStatus\<close> and for the one created by \<open>addRecutEntry\<close> or by
  \<open>addSheetsToMaterial\<close> as a recut. And when the counts agree in every row of a store,
  they agree in every row of the store reached by any sequence of requests. The storage
  methods are the ones modelled from the spec.
\<close>

theorem completedSheets_counts_cut:
  "(updateSheetStatus st i k s = Inr st' \<longrightarrow>
      (\<exists>m. materials st' i = Some m
           \<and> completedSheets m = int (countCut (sheetStatuses m))
           \<and> completedSheets m = int (shownCompleted m)))
   \<and> (updateRecutSheetStatus st j k s = Inr st' \<longrightarrow>
      (\<exists>r. recuts st' j = Some r
           \<and> recutCompletedSheets r = int (countCut (recutSheetStatuses r))))
   \<and> (deleteSheet st i k = Inr st' \<longrightarrow>
      (\<exists>m. materials st' i = Some m
           \<and> completedSheets m = int (countCut (sheetStatuses m))
           \<and> completedSheets m = int (shownCompleted m)))
   \<and> (addSheetsToMaterial st i n False = Inr st' \<longrightarrow>
      (\<exists>m. materials st' i = Some m
           \<and> completedSheets m = int (countCut (sheetStatuses m))
           \<and> completedSheets m = int (shownCompleted m)))
   \<and> (addSheetsToMaterial st i n True = Inr st' \<longrightarrow>
      (\<exists>r. recuts st' (nextRecutId st) = Some r
           \<and> recutCompletedSheets r = int (countCut (recutSheetStatuses r))))
   \<and> (addRecutEntry st i n why uid = Inr st' \<longrightarrow>
      (\<exists>r. recuts st' (nextRecutId st) = Some r
           \<and> recutCompletedSheets r = int (countCut (recutSheetStatuses r))))
   \<and> (addMaterialToJob st jb c n = Inr st' \<longrightarrow>
      (\<exists>m. materials st' (nextMaterialId st) = Some m
           \<and> completedSheets m = int (countCut (sheetStatuses m))
           \<and> completedSheets m = int (shownCompleted m)))
   \<and> (storeCounts (storage srv) \<longrightarrow> storeCounts (storage (serve rs srv)))"
  using written_updateSheetStatus [of st i k s st']
        written_updateRecutSheetStatus [of st j k s st']
        written_deleteSheet [of st i k st']
        written_addSheetsToMaterial [of st i n st']
        written_addSheetsToMaterial_recut [of st i n st']
        written_addRecutEntry [of st i n why uid st']
        written_addMaterialToJob [of st jb c n st']
        counts_serve [of srv rs]
  unfolding countAgrees_def recutCountAgrees_def by blast

lemma storeCounts_shopServer: "storeCounts (storage shopServer)"
  by (simp add: storeCounts_def countAgrees_def shopServer_def shopStore_def sixPending_def
        countCut_def)

lemma serve_cutThenDelete:
  "materials (storage (serve cutThenDelete shopServer)) 5 = Some fivePending"
  by (simp add: cutThenDelete_def shopServer_def shopStore_def sixPending_def fivePending_def
        operator_def putSheetStatus_def deleteSheetRoute_def requireAuth_def broadcast_def
        updateSheetStatus_def deleteSheet_def validStatus_def countCut_def numeral_eq_Suc)

lemma updateSheetStatus_shopStore_cut:
  "updateSheetStatus shopStore 5 2 ''cut'' =
     Inr (shopStore\<lparr>materials := [5 \<mapsto> sixPending\<lparr>completedSheets := 1,
            sheetStatuses := [''pending'', ''pending'', ''cut'', ''pending'',
                              ''pending'', ''pending'']\<rparr>]\<rparr>)"
  by (simp add: updateSheetStatus_def shopStore_def sixPending_def validStatus_def countCut_def
        numeral_eq_Suc)

lemma deleteSheet_twoCutStore:
  "deleteSheet twoCutStore 5 2 =
     Inr (twoCutStore\<lparr>materials := [5 \<mapsto> fivePending]\<rparr>)"
  by (simp add: deleteSheet_def twoCutStore_def sixPending_def fivePending_def countCut_def
        numeral_eq_Suc)

lemma updateRecutSheetStatus_twoCutStore:
  "updateRecutSheetStatus twoCutStore 1 0 ''cut'' =
     Inr (twoCutStore\<lparr>recuts :=
            [1 \<mapsto> \<lparr>recutId = 1, recutMaterialId = 5, quantity = 2, reason = None,
                    recutSheetStatuses = [''cut'', ''pending''],
                    recutCompletedSheets = 1, recutUserId = None\<rparr>]\<rparr>)"
  by (simp add: updateRecutSheetStatus_def twoCutStore_def validStatus_def countCut_def)

text \<open>
  Sheet 2 of six pending sheets set to cut: one completed sheet. Sheet 0 of a recut entry
  of two set to cut: one completed sheet. The cut sheet 2 deleted: no completed sheet. The
  two requests, set sheet 2 to cut and delete sheet 2, served one after the other: no
  completed sheet.
\<close>

theorem completedSheets_counts_cut_witness:
  "map_option completedSheets
     (case updateSheetStatus shopStore 5 2 ''cut'' of Inl e \<Rightarrow> None | Inr st \<Rightarrow> materials st 5)
     = Some 1
   \<and> map_option (\<lambda>m. countCut (sheetStatuses m))
     (case updateSheetStatus shopStore 5 2 ''cut'' of Inl e \<Rightarrow> None | Inr st \<Rightarrow> materials st 5)
     = Some 1
   \<and> map_option recutCompletedSheets
     (case updateRecutSheetStatus twoCutStore 1 0 ''cut'' of
        Inl e \<Rightarrow> None | Inr st \<Rightarrow> recuts st 1)
     = Some 1
   \<and> map_option (\<lambda>r. countCut (recutSheetStatuses r))
     (case updateRecutSheetStatus twoCutStore 1 0 ''cut'' of
        Inl e \<Rightarrow> None | Inr st \<Rightarrow> recuts st 1)
     = Some 1
   \<and> map_option completedSheets
     (case deleteSheet twoCutStore 5 2 of Inl e \<Rightarrow> None | Inr st \<Rightarrow> materials st 5)
     = Some 0
   \<and> map_option (\<lambda>m. countCut (sheetStatuses m))
     (case deleteSheet twoCutStore 5 2 of Inl e \<Rightarrow> None | Inr st \<Rightarrow> materials st 5)
     = Some 0
   \<and> storeCounts (storage shopServer)
   \<and> storeCounts (storage (serve cutThenDelete shopServer))
   \<and> map_option completedSheets (materials (storage (serve cutThenDelete shopServer)) 5)
     = Some 0
   \<and> map_option (\<lambda>m. countCut (sheetStatuses m))
       (materials (storage (serve cutThenDelete shopServer)) 5)
     = Some 0"
  using completedSheets_counts_cut
          [where st = shopStore and i = 5 and k = 2 and s = "''cut''" and srv = shopServer
             and rs = cutThenDelete]
        completedSheets_counts_cut
          [where st = twoCutStore and i = 5 and j = 1 and k = 0 and s = "''cut''"]
        completedSheets_counts_cut
          [where st = twoCutStore and i = 5 and k = 2]
        storeCounts_shopServer
  by (simp add: updateSheetStatus_shopStore_cut updateRecutSheetStatus_twoCutStore
        deleteSheet_twoCutStore serve_cutThenDelete countCut_def fivePending_def)

subsection \<open>Failures of the set-sheet-status routes\<close>

lemma updateSheetStatus_absent:
  "updateSheetStatus (storage shopServer) 99 0 ''cut'' = Inl NotFound"
  by (simp add: updateSheetStatus_def shopServer_def shopStore_def)

lemma updateSheetStatus_beyond:
  "updateSheetStatus (storage shopServer) 5 7 ''cut'' = Inl OutOfRange"
  by (simp add: updateSheetStatus_def shopServer_def shopStore_def sixPending_def)

lemma updateSheetStatus_unknown_status:
  "updateSheetStatus (storage shopServer) 5 0 ''done'' = Inl InvalidArgument"
  by (simp add: updateSheetStatus_def shopServer_def shopStore_def sixPending_def
        validStatus_def)

text \<open>
  C3, as amended. Every failing call of the set-sheet-status operation made by a request
  with a session, whatever the storage method throws, is answered by both routes with the
  one response 500 "Failed to update sheet status": the kind of the failure does not reach
  the caller.
\<close>

theorem sheet_status_failure_is_500:
  assumes "upd (storage srv) i k s = Inl e"
  shows "fst (putSheetStatus upd srv (Some u) i k s)
           = Status 500 ''Failed to update sheet status''
         \<and> fst (postSheetStatus upd srv (Some u) i k s)
           = Status 500 ''Failed to update sheet status''"
  using assms by (simp add: putSheetStatus_def postSheetStatus_def requireAuth_def)

text \<open>A status update for a material that does not exist.\<close>

theorem sheet_status_failure_is_500_witness:
  "updateSheetStatus (storage shopServer) 99 0 ''cut'' = Inl NotFound
   \<and> fst (putSheetStatus updateSheetStatus shopServer (Some operator) 99 0 ''cut'')
       = Status 500 ''Failed to update sheet status''"
  using sheet_status_failure_is_500
          [of updateSheetStatus shopServer 99 0 "''cut''" NotFound operator]
        updateSheetStatus_absent
  by simp

text \<open>
  An absent material, an index out of range and an unknown status fail in the store with
  three different kinds, and the three requests get the same response.
\<close>

theorem sheet_status_failures_same_response:
  "updateSheetStatus (storage shopServer) 99 0 ''cut'' = Inl NotFound
   \<and> updateSheetStatus (storage shopServer) 5 7 ''cut'' = Inl OutOfRange
   \<and> updateSheetStatus (storage shopServer) 5 0 ''done'' = Inl InvalidArgument
   \<and> fst (putSheetStatus updateSheetStatus shopServer (Some operator) 99 0 ''cut'')
       = fst (putSheetStatus updateSheetStatus shopServer (Some operator) 5 7 ''cut'')
   \<and> fst (putSheetStatus updateSheetStatus shopServer (Some operator) 5 7 ''cut'')
       = fst (putSheetStatus updateSheetStatus shopServer (Some operator) 5 0 ''done'')"
  by (simp add: updateSheetStatus_absent updateSheetStatus_beyond
        updateSheetStatus_unknown_status putSheetStatus_def requireAuth_def)

subsection \<open>The broadcast of a status update\<close>

text \<open>
  C4. The request \<^verbatim>\<open>PUT /api/materials/5/sheet-status\<close> with body
  \<^verbatim>\<open>{sheetIndex: 2, status: "cut"}\<close>, from a logged-in user, on a server with three
  sockets of which the second has closed: the answer is 200, each open socket is sent the
  one event \<^verbatim>\<open>sheet_status_updated\<close> and the closed one nothing; the payload of the event
  has the keys \<^verbatim>\<open>id\<close>, \<^verbatim>\<open>sheetIndex\<close> and \<^verbatim>\<open>status\<close>, and no key \<^verbatim>\<open>materialId\<close>.
\<close>

theorem putSheetStatus_broadcast_payload:
  "fst (putSheetStatus updateSheetStatus shopServer (Some operator) 5 2 ''cut'')
     = Status 200 ''Sheet status updated''
   \<and> map (\<lambda>c. (wsId c, wsSent c))
        (clients (snd (putSheetStatus updateSheetStatus shopServer (Some operator) 5 2 ''cut'')))
     = [(1, [cutMessage]), (2, []), (3, [cutMessage])]
   \<and> map fst (msgData cutMessage) = [''id'', ''sheetIndex'', ''status'']
   \<and> map_of (msgData cutMessage) ''materialId'' = None"
  by (simp add: putSheetStatus_def requireAuth_def broadcast_def broadcastToClients_def
        wsSend_def shopServer_def updateSheetStatus_shopStore_cut cutMessage_def)

subsection \<open>Guards of the routes\<close>

text \<open>
  C9. An add-sheets or add-recut request whose count is absent or less than 1 leaves the
  server as it was, whatever the storage method would do and whatever the session; when
  the request has a session it is answered 400.
\<close>

theorem nonpositive_count_is_rejected:
  assumes "c = None \<or> (\<exists>n. c = Some n \<and> n < 1)"
  shows "postAddSheets add srv (Some u) i c isRecut
           = (Status 400 ''Additional sheets must be a positive number'', srv)
         \<and> postRecuts addR srv (Some u) ru i c why = (Status 400 ''Invalid recut quantity'', srv)
         \<and> snd (postAddSheets add srv sess i c isRecut) = srv
         \<and> snd (postRecuts addR srv sess ru i c why) = srv"
  using assms
  by (auto simp: postAddSheets_def postRecuts_def requireAuth_def split: option.splits)

text \<open>Zero additional sheets, and a recut request without a quantity.\<close>

theorem nonpositive_count_is_rejected_witness:
  "postAddSheets addSheetsToMaterial shopServer (Some operator) 5 (Some 0) False
     = (Status 400 ''Additional sheets must be a positive number'', shopServer)
   \<and> postRecuts addRecutEntry shopServer (Some operator) None 5 None (Some ''warped'')
     = (Status 400 ''Invalid recut quantity'', shopServer)"
  using nonpositive_count_is_rejected
          [of "Some 0" addSheetsToMaterial shopServer operator 5 False addRecutEntry None None
              None]
        nonpositive_count_is_rejected
          [of None addSheetsToMaterial shopServer operator 5 False addRecutEntry None
              "Some ''warped''" None]
  by simp

text \<open>
  C10. Without a session user, each of the routes that set a sheet status, set a recut
  sheet status, add sheets, add a recut entry or delete a sheet answers 401 and returns
  the server as it was, whatever the storage method would do; the route that lists the
  recut entries of a material answers from the storage whatever the session is.
\<close>

theorem unauthenticated_mutations_rejected:
  "putSheetStatus upd srv None i k s = (Status 401 ''Authentication required'', srv)
   \<and> postSheetStatus upd' srv None i k s = (Status 401 ''Authentication required'', srv)
   \<and> putRecutSheetStatus updR srv None i k s = (Status 401 ''Authentication required'', srv)
   \<and> postAddSheets add srv None i c isRecut = (Status 401 ''Authentication required'', srv)
   \<and> postRecuts addR srv None ru i c why = (Status 401 ''Authentication required'', srv)
   \<and> deleteSheetRoute del srv None i k = (Status 401 ''Authentication required'', srv)
   \<and> getRecuts get srv sess i =
       (case get (storage srv) i of
          Inl e \<Rightarrow> (Status 500 ''Failed to fetch recut entries'', srv)
        | Inr entries \<Rightarrow> (Body entries, srv))"
  by (simp add: route_defs requireAuth_def)

text \<open>The routes on a store with one material and no recut entry, without a session.\<close>

theorem unauthenticated_mutations_rejected_witness:
  "putSheetStatus updateSheetStatus shopServer None 5 2 ''cut''
     = (Status 401 ''Authentication required'', shopServer)
   \<and> postAddSheets addSheetsToMaterial shopServer None 5 (Some 3) False
     = (Status 401 ''Authentication required'', shopServer)
   \<and> deleteSheetRoute deleteSheet shopServer None 5 2
     = (Status 401 ''Authentication required'', shopServer)
   \<and> getRecuts getRecutEntries shopServer None 5 = (Body [], shopServer)"
  by (simp add: unauthenticated_mutations_rejected getRecutEntries_def shopServer_def
        shopStore_def)

section \<open>Properties of the popup\<close>

lemmas client_defs = buttonClick_def handleSheetClick_def mutate_def onMutate_def isPending_def
  displayedStatus_def renderedStatus_def render_def serverStatus_def orPending_def
  optimisticAt_def setOptimistic_def cycleStatus_def respondSuccess_def respondError_def
  onSuccess_def onError_def refetched_def freshPopup_def cell_def Let_def

text \<open>
  C8. The cycle of the click handlers goes from pending to cut, from cut to skip and from
  skip to pending: three applications from pending return to pending.
\<close>

theorem cycleStatus_three_times:
  "cycleStatus ''pending'' = ''cut'' \<and> cycleStatus ''cut'' = ''skip''
   \<and> cycleStatus ''skip'' = ''pending''
   \<and> cycleStatus (cycleStatus (cycleStatus ''pending'')) = ''pending''"
  by (simp add: cycleStatus_def)

text \<open>
  After a click on an enabled button, its success response and a refetch, the cell shows
  the status the click wrote, whatever the refetched materials say: \<open>onSuccess\<close> leaves
  the optimistic entry.
\<close>

lemma displayedStatus_after_success:
  assumes "\<not> renderedPending st" and "inFlight st = []" and "matId m' = matId m"
  shows "displayedStatus (refetched ms (respondSuccess (buttonClick st m i))) m' i
           = cycleStatus (renderedStatus st m i)"
  using assms
  by (simp add: buttonClick_def handleSheetClick_def mutate_def onMutate_def Let_def
        optimisticAt_def setOptimistic_def respondSuccess_def onSuccess_def
        refetched_def displayedStatus_def renderedStatus_def split: option.splits list.splits)

text \<open>
  C5. A cell shown pending is clicked; the request succeeds; the job is fetched again and
  the server's status of the cell is skip (another operator has set it). The mutation is
  settled and the job query has been invalidated once, the server's status is skip, and
  the cell is displayed as cut.
\<close>

theorem optimistic_entry_shadows_refetch:
  "displayedStatus
     (refetched [cell ''skip'']
        (respondSuccess (buttonClick (freshPopup [cell ''pending'']) (cell ''pending'') 0)))
     (cell ''skip'') 0 = ''cut''
   \<and> serverStatus (cell ''skip'') 0 = ''skip''
   \<and> inFlight
       (refetched [cell ''skip'']
          (respondSuccess (buttonClick (freshPopup [cell ''pending'']) (cell ''pending'') 0)))
     = []
   \<and> invalidations
       (refetched [cell ''skip'']
          (respondSuccess (buttonClick (freshPopup [cell ''pending'']) (cell ''pending'') 0)))
     = 1"
  by (simp add: client_defs)

text \<open>
  When the cell had an optimistic entry at the render in which it is clicked, a failure
  response brings the display back to it.
\<close>

lemma rollback_with_prior_entry:
  assumes "\<not> renderedPending st" and "inFlight st = []"
      and "optimisticAt (renderedStatuses st) (matId m) i = Some s" and "s \<noteq> []"
  shows "displayedStatus (respondError e (buttonClick st m i)) m i = renderedStatus st m i"
  using assms
  by (simp add: buttonClick_def handleSheetClick_def mutate_def onMutate_def Let_def
        optimisticAt_def setOptimistic_def respondError_def onError_def
        orPending_def displayedStatus_def renderedStatus_def split: option.splits list.splits)

text \<open>
  C6. A cell that the server reports as cut, with no optimistic entry, is clicked: it is
  displayed as skip. The request fails: the toast is shown, and the cell is displayed as
  pending, not as the cut it showed before the click.
\<close>

theorem rollback_goes_to_pending:
  "displayedStatus (freshPopup [cell ''cut'']) (cell ''cut'') 0 = ''cut''
   \<and> displayedStatus (buttonClick (freshPopup [cell ''cut'']) (cell ''cut'') 0) (cell ''cut'') 0
       = ''skip''
   \<and> displayedStatus
       (respondError ''500: Failed to update sheet status''
          (buttonClick (freshPopup [cell ''cut'']) (cell ''cut'') 0))
       (cell ''cut'') 0 = ''pending''
   \<and> toasts (respondError ''500: Failed to update sheet status''
          (buttonClick (freshPopup [cell ''cut'']) (cell ''cut'') 0))
      = [\<lparr>title = ''Error'', description = ''500: Failed to update sheet status'',
          variant = ''destructive''\<rparr>]"
  by (simp add: client_defs)

text \<open>
  C7, as amended. A click on a button that was rendered enabled issues one request of its
  own for its cell and adds one mutation to those in flight, also when an earlier request
  is still in flight: nothing is coalesced or debounced. When the optimistic map has not
  changed since the render, the status requested is the cycle's successor of the latest
  optimistic value of the cell (of the server's status when there is none). A button that
  was rendered while the mutation was pending is disabled: a click on it changes nothing
  and issues no request. A render takes the current pending flag and optimistic map, and
  after a click on an enabled button the mutation is pending, so the next render disables
  the buttons.
\<close>

theorem enabled_click_issues_request:
  "(renderedPending st \<longrightarrow> buttonClick st material index = st)
   \<and> (\<not> renderedPending st \<longrightarrow>
        map (\<lambda>v. (varMaterialId v, varSheetIndex v)) (apiCalls (buttonClick st material index))
          = map (\<lambda>v. (varMaterialId v, varSheetIndex v)) (apiCalls st)
            @ [(matId material, index)]
        \<and> length (inFlight (buttonClick st material index)) = Suc (length (inFlight st)))
   \<and> (\<not> renderedPending st \<and> renderedStatuses st = optimisticSheetStatuses st \<longrightarrow>
        apiCalls (buttonClick st material index)
          = apiCalls st @
            [\<lparr>varMaterialId = matId material, varSheetIndex = index,
              varStatus = cycleStatus
                (case optimisticAt (optimisticSheetStatuses st) (matId material) index of
                   Some optimisticStatus \<Rightarrow> optimisticStatus
                 | None \<Rightarrow> serverStatus material index)\<rparr>])
   \<and> renderedPending (render st) = isPending st
   \<and> renderedStatuses (render st) = optimisticSheetStatuses st
   \<and> (\<not> renderedPending st \<longrightarrow> isPending (buttonClick st material index))"
  by (simp add: buttonClick_def handleSheetClick_def mutate_def onMutate_def Let_def
        renderedStatus_def render_def isPending_def split: option.splits)

text \<open>
  A first click on a pending cell of a fresh popup issues the request for cut; after the
  next render the button is disabled, and a second click changes nothing.
\<close>

theorem enabled_click_issues_request_witness:
  "\<not> renderedPending (freshPopup [cell ''pending''])
   \<and> renderedStatuses (freshPopup [cell ''pending''])
       = optimisticSheetStatuses (freshPopup [cell ''pending''])
   \<and> apiCalls (buttonClick (freshPopup [cell ''pending'']) (cell ''pending'') 0)
       = [\<lparr>varMaterialId = 5, varSheetIndex = 0, varStatus = ''cut''\<rparr>]
   \<and> renderedPending (render (buttonClick (freshPopup [cell ''pending'']) (cell ''pending'') 0))
   \<and> buttonClick (render (buttonClick (freshPopup [cell ''pending'']) (cell ''pending'') 0))
        (cell ''pending'') 0
       = render (buttonClick (freshPopup [cell ''pending'']) (cell ''pending'') 0)"
proof -
  let ?p = "freshPopup [cell ''pending'']" and ?c = "cell ''pending''"
  have fresh: "\<not> renderedPending ?p" "renderedStatuses ?p = optimisticSheetStatuses ?p"
    "apiCalls ?p = []" "optimisticAt (optimisticSheetStatuses ?p) (matId ?c) 0 = None"
    by (simp_all add: freshPopup_def optimisticAt_def)
  have status: "cycleStatus (serverStatus ?c 0) = ''cut''" "matId ?c = 5"
    by (simp_all add: cell_def serverStatus_def orPending_def cycleStatus_def)
  have calls: "apiCalls (buttonClick ?p ?c 0)
                 = [\<lparr>varMaterialId = 5, varSheetIndex = 0, varStatus = ''cut''\<rparr>]"
    using enabled_click_issues_request [of ?p ?c 0] fresh status by simp
  have pending: "isPending (buttonClick ?p ?c 0)"
    using enabled_click_issues_request [of ?p ?c 0] fresh by simp
  have disabled: "renderedPending (render (buttonClick ?p ?c 0))"
    using enabled_click_issues_request [of "buttonClick ?p ?c 0" ?c 0] pending by simp
  have dropped: "buttonClick (render (buttonClick ?p ?c 0)) ?c 0 = render (buttonClick ?p ?c 0)"
    using enabled_click_issues_request [of "render (buttonClick ?p ?c 0)" ?c 0] disabled
    by simp
  from fresh(1,2) calls disabled dropped show ?thesis by simp
qed

text \<open>
  Two clicks on a pending cell, the second while the request of the first is in flight.
  With a render between them the second click is dropped: one request has been issued.
  Without a render between them the second click requests cut again, although the latest
  optimistic value of the cell is cut, whose successor is skip.
\<close>

theorem clicks_in_flight_suppressed_or_stale:
  "isPending (render (buttonClick (freshPopup [cell ''pending'']) (cell ''pending'') 0))
   \<and> apiCalls
       (buttonClick (render (buttonClick (freshPopup [cell ''pending'']) (cell ''pending'') 0))
          (cell ''pending'') 0)
       = [\<lparr>varMaterialId = 5, varSheetIndex = 0, varStatus = ''cut''\<rparr>]
   \<and> isPending (buttonClick (freshPopup [cell ''pending'']) (cell ''pending'') 0)
   \<and> optimisticAt
        (optimisticSheetStatuses
           (buttonClick (freshPopup [cell ''pending'']) (cell ''pending'') 0)) 5 0
       = Some ''cut''
   \<and> apiCalls
       (buttonClick (buttonClick (freshPopup [cell ''pending'']) (cell ''pending'') 0)
          (cell ''pending'') 0)
       = [\<lparr>varMaterialId = 5, varSheetIndex = 0, varStatus = ''cut''\<rparr>,
          \<lparr>varMaterialId = 5, varSheetIndex = 0, varStatus = ''cut''\<rparr>]"
  by (simp add: client_defs)

end
